theory Spec2Isabelle
  imports Main "HOL-Library.Word"
begin

section \<open>The Windows print-spooler backend of brother\_ql\<close>

text \<open>
  The development embeds \<^verbatim>\<open>src/brother_ql/backends/windows_printer.py\<close>:
  the function \<^verbatim>\<open>list_available_devices\<close> and the class
  \<^verbatim>\<open>BrotherQLBackendWindows\<close> with its methods \<^verbatim>\<open>__init__\<close>,
  \<^verbatim>\<open>_open_printer\<close>, \<^verbatim>\<open>_close_printer\<close>, \<^verbatim>\<open>_write\<close>,
  \<^verbatim>\<open>_read\<close>, \<^verbatim>\<open>dispose\<close> and \<^verbatim>\<open>__del__\<close>.
  Isabelle identifiers cannot start with an underscore, so the leading underscores of the
  method names are dropped.
\<close>

subsection \<open>Values\<close>

text \<open>
  A Python \<^verbatim>\<open>str\<close> is a sequence of code points, a \<^verbatim>\<open>bytes\<close> a sequence of
  octets. (HOL's \<open>char\<close> has 8 bits only, so it cannot stand for a code point.)
\<close>

type_synonym pystr = "nat list"
type_synonym pybytes = "8 word list"

definition lit :: "string \<Rightarrow> pystr" where
  "lit s = map of_char s"

text \<open>\<^verbatim>\<open>s.startswith(p)\<close> and \<^verbatim>\<open>sub in s\<close> on strings.\<close>

definition startswith :: "pystr \<Rightarrow> pystr \<Rightarrow> bool" where
  "startswith s p = (take (length p) s = p)"

fun contains :: "pystr \<Rightarrow> pystr \<Rightarrow> bool" where
  "contains sub [] = (sub = [])"
| "contains sub (c # cs) = (startswith (c # cs) sub \<or> contains sub cs)"

text \<open>The values a caller may pass where the code tests \<^verbatim>\<open>isinstance(x, str)\<close>.\<close>

datatype pyobj = is_Str: Str pystr | BytesObj pybytes | IntObj int | NoneObj

subsection \<open>Exceptions\<close>

text \<open>
  The exceptions the module raises, each with the data its message carries.
  In the words of the specification: \<open>NotImplementedError\<close> is
  \<^verbatim>\<open>UnsupportedIdentifier\<close>, \<open>ValueError Invalid_printer_name\<close> is
  \<^verbatim>\<open>InvalidDeviceName\<close>, \<open>ValueError (Could_not_open_printer n e)\<close> and
  \<open>OSError_Failed_to_open_printer\<close> are \<^verbatim>\<open>DeviceUnreachable\<close>,
  \<open>IOError StartDocPrinter_failed\<close> is \<^verbatim>\<open>JobStartFailed\<close>,
  \<open>IOError StartPagePrinter_failed\<close> is \<^verbatim>\<open>PageStartFailed\<close> and
  \<open>IOError (WritePrinter_failed written requested)\<close> is \<^verbatim>\<open>WriteIncomplete\<close>.
  \<open>ImportError\<close> is what \<^verbatim>\<open>import winreg\<close> raises where the module is missing,
  \<open>OSError_registry\<close> what \<^verbatim>\<open>winreg.OpenKey\<close> raises when it fails.
\<close>

datatype io_msg =
    StartDocPrinter_failed
  | StartPagePrinter_failed
  | WritePrinter_failed nat nat

datatype error =
    NotImplementedError
  | ValueError value_msg
  | OSError_Failed_to_open_printer "pystr option"
  | IOError io_msg
  | UnicodeEncodeError
  | ImportError
  | OSError_registry
and value_msg =
    Invalid_printer_name
  | Could_not_open_printer "pystr option" error

text \<open>
  \<^verbatim>\<open>data.encode('latin-1')\<close>: every code point up to 255 is one byte; any other
  code point raises \<^verbatim>\<open>UnicodeEncodeError\<close>.
\<close>

definition encode_latin1 :: "pystr \<Rightarrow> error + pybytes" where
  "encode_latin1 s =
     (if list_all (\<lambda>c. c \<le> 255) s then Inr (map of_nat s) else Inl UnicodeEncodeError)"

subsection \<open>The spooler and the logger\<close>

text \<open>
  The calls into \<^verbatim>\<open>winspool.drv\<close>, with the arguments that matter. A handle is the
  value held by the \<^verbatim>\<open>wintypes.HANDLE\<close> object; the code passes
  \<^verbatim>\<open>self.hprinter\<close>, which may be \<^verbatim>\<open>None\<close>.
\<close>

type_synonym handle = nat

datatype os_call =
    is_OpenPrinterW: OpenPrinterW "pystr option"
  | is_ClosePrinter: ClosePrinter "handle option"
  | is_StartDocPrinterW: StartDocPrinterW "handle option"
  | is_StartPagePrinter: StartPagePrinter "handle option"
  | is_WritePrinter: WritePrinter "handle option" pybytes nat
  | is_EndPagePrinter: EndPagePrinter "handle option"
  | is_EndDocPrinter: EndDocPrinter "handle option"

text \<open>
  What the spooler answers during one operation of the session. Every operation calls each
  spooler function at most once, so one answer per function describes any spooler.
  A return value is the C \<^verbatim>\<open>int\<close> that ctypes hands back (zero is failure);
  \<^verbatim>\<open>OpenPrinterW\<close> also leaves a value in the handle object and \<^verbatim>\<open>WritePrinter\<close>
  a count in \<^verbatim>\<open>written\<close>. The return value of \<^verbatim>\<open>ClosePrinter\<close> is never read.
  Loading \<^verbatim>\<open>winspool.drv\<close> is taken to succeed.
\<close>

record os =
  OpenPrinterW_r :: "int \<times> handle"
  StartDocPrinterW_r :: int
  StartPagePrinter_r :: int
  WritePrinter_r :: "int \<times> nat"
  EndPagePrinter_r :: int
  EndDocPrinter_r :: int

datatype level = DEBUG | INFO | WARNING | ERROR

datatype log_msg =
    Initializing "pystr option"
  | Wrote_bytes nat
  | EndPagePrinter_failed_msg
  | EndDocPrinter_failed_msg
  | Error_writing error
  | Could_not_enumerate error
  | Error_listing error

subsection \<open>Sessions and actions\<close>

text \<open>The two attributes of a \<^verbatim>\<open>BrotherQLBackendWindows\<close> object.\<close>

record session =
  printer_name :: "pystr option"
  hprinter :: "handle option"

text \<open>
  What running a method gives: the value returned or the exception raised, the object
  afterwards, the spooler calls made, in order, and the log records emitted, in order.
\<close>

record 'a outcome =
  result :: "error + 'a"
  self :: session
  calls :: "os_call list"
  logs :: "(level \<times> log_msg) list"

type_synonym 'a action = "session \<Rightarrow> 'a outcome"

definition return :: "'a \<Rightarrow> 'a action" where
  "return v s = \<lparr>result = Inr v, self = s, calls = [], logs = []\<rparr>"

definition raise :: "error \<Rightarrow> 'a action" where
  "raise e s = \<lparr>result = Inl e, self = s, calls = [], logs = []\<rparr>"

text \<open>A computation that touches neither the object nor the spooler.\<close>

definition lift :: "error + 'a \<Rightarrow> 'a action" where
  "lift r s = \<lparr>result = r, self = s, calls = [], logs = []\<rparr>"

text \<open>Sequencing: the second statement runs only if the first raised nothing.\<close>

definition bind :: "'a action \<Rightarrow> ('a \<Rightarrow> 'b action) \<Rightarrow> 'b action" where
  "bind m f s =
     (let o1 = m s in
      case result o1 of
        Inl e \<Rightarrow> \<lparr>result = Inl e, self = self o1, calls = calls o1, logs = logs o1\<rparr>
      | Inr v \<Rightarrow>
          (let o2 = f v (self o1) in
           \<lparr>result = result o2, self = self o2,
            calls = calls o1 @ calls o2, logs = logs o1 @ logs o2\<rparr>))"

text \<open>\<^verbatim>\<open>try: m  except Exception as e: h(e)\<close>\<close>

definition try_except :: "'a action \<Rightarrow> (error \<Rightarrow> 'a action) \<Rightarrow> 'a action" where
  "try_except m h s =
     (let o1 = m s in
      case result o1 of
        Inr v \<Rightarrow> o1
      | Inl e \<Rightarrow>
          (let o2 = h e (self o1) in
           \<lparr>result = result o2, self = self o2,
            calls = calls o1 @ calls o2, logs = logs o1 @ logs o2\<rparr>))"

text \<open>
  \<^verbatim>\<open>try: m  finally: fin\<close>: the final block always runs; an exception of its own
  replaces the outcome of the body, otherwise the outcome of the body stands.
\<close>

definition try_finally :: "'a action \<Rightarrow> unit action \<Rightarrow> 'a action" where
  "try_finally m fin s =
     (let o1 = m s; o2 = fin (self o1) in
      \<lparr>result = (case result o2 of Inl e \<Rightarrow> Inl e | Inr u \<Rightarrow> result o1),
       self = self o2,
       calls = calls o1 @ calls o2, logs = logs o1 @ logs o2\<rparr>)"

definition logger :: "level \<Rightarrow> log_msg \<Rightarrow> unit action" where
  "logger l m s = \<lparr>result = Inr (), self = s, calls = [], logs = [(l, m)]\<rparr>"

text \<open>A spooler call: it is recorded, and the answer \<open>r\<close> of the spooler is returned.\<close>

definition winspool :: "(handle option \<Rightarrow> os_call) \<Rightarrow> 'r \<Rightarrow> 'r action" where
  "winspool c r s = \<lparr>result = Inr r, self = s, calls = [c (hprinter s)], logs = []\<rparr>"

subsection \<open>The methods of the class\<close>

text \<open>
  \<^verbatim>\<open>_open_printer\<close>. The attribute is assigned a fresh \<^verbatim>\<open>HANDLE\<close> object before
  the call, so it is no longer \<^verbatim>\<open>None\<close> afterwards, whether or not the call succeeded.
\<close>

definition open_printer :: "os \<Rightarrow> unit action" where
  "open_printer w s =
     (if hprinter s \<noteq> None then return () s
      else
        (let res = fst (OpenPrinterW_r w);
             s' = s\<lparr>hprinter := Some (snd (OpenPrinterW_r w))\<rparr> in
         \<lparr>result = (if res = 0 then Inl (OSError_Failed_to_open_printer (printer_name s))
                     else Inr ()),
          self = s', calls = [OpenPrinterW (printer_name s)], logs = []\<rparr>))"

text \<open>\<^verbatim>\<open>_close_printer\<close>\<close>

definition close_printer :: "unit action" where
  "close_printer s =
     (if hprinter s \<noteq> None then
        \<lparr>result = Inr (), self = s\<lparr>hprinter := None\<rparr>,
         calls = [ClosePrinter (hprinter s)], logs = []\<rparr>
      else return () s)"

text \<open>
  \<^verbatim>\<open>__init__\<close>, run on the fresh object. The prefix \<^verbatim>\<open>'windows://'\<close> has ten
  characters, and the code drops ten.
\<close>

definition init :: "os \<Rightarrow> pyobj \<Rightarrow> unit outcome" where
  "init w device_specifier =
     (let s0 = \<lparr>printer_name = None, hprinter = None\<rparr> in
      case device_specifier of
        Str d \<Rightarrow>
          (let name = (if startswith d (lit ''windows://'') then drop 10 d else d);
               s1 = s0\<lparr>printer_name := Some name\<rparr> in
           if name = [] then raise (ValueError Invalid_printer_name) s1
           else
             bind (logger INFO (Initializing (Some name))) (\<lambda>_.
               try_except
                 (bind (open_printer w) (\<lambda>_. close_printer))
                 (\<lambda>e. raise (ValueError (Could_not_open_printer (Some name) e)))) s1)
      | _ \<Rightarrow> raise NotImplementedError s0)"

text \<open>\<^verbatim>\<open>_write(self, data)\<close>, named \<open>write_data\<close> here since \<open>write\<close> is a keyword of Isabelle. The payload is a \<^verbatim>\<open>str\<close> or a \<^verbatim>\<open>bytes\<close>.\<close>

datatype payload = Text pystr | Raw pybytes

definition encode_payload :: "payload \<Rightarrow> error + pybytes" where
  "encode_payload p = (case p of Text t \<Rightarrow> encode_latin1 t | Raw b \<Rightarrow> Inr b)"

definition write_data :: "os \<Rightarrow> payload \<Rightarrow> unit action" where
  "write_data w p =
     try_except
       (bind (open_printer w) (\<lambda>_.
        bind (lift (encode_payload p)) (\<lambda>data.
        bind (winspool StartDocPrinterW (StartDocPrinterW_r w)) (\<lambda>job_id.
        if job_id = 0 then raise (IOError StartDocPrinter_failed)
        else
          try_finally
            (bind (winspool StartPagePrinter (StartPagePrinter_r w)) (\<lambda>started.
             if started = 0 then raise (IOError StartPagePrinter_failed)
             else
               bind (winspool (\<lambda>h. WritePrinter h data (length data)) (WritePrinter_r w))
                 (\<lambda>(res, written).
                    if res = 0 then raise (IOError (WritePrinter_failed written (length data)))
                    else
                      bind (logger DEBUG (Wrote_bytes written)) (\<lambda>_.
                      bind (winspool EndPagePrinter (EndPagePrinter_r w)) (\<lambda>ended.
                      if ended = 0 then logger WARNING EndPagePrinter_failed_msg
                      else return ())))))
            (bind (winspool EndDocPrinter (EndDocPrinter_r w)) (\<lambda>ended.
             if ended = 0 then logger WARNING EndDocPrinter_failed_msg
             else return ()))))))
       (\<lambda>e. bind (logger ERROR (Error_writing e)) (\<lambda>_. raise e))"

text \<open>\<^verbatim>\<open>_read\<close>: the argument is not used.\<close>

definition read :: "int \<Rightarrow> pybytes action" where
  "read length_arg = return []"

text \<open>\<^verbatim>\<open>dispose\<close> and \<^verbatim>\<open>__del__\<close>\<close>

definition dispose :: "unit action" where
  "dispose = try_except close_printer (\<lambda>e. return ())"

definition del :: "unit action" where
  "del = dispose"

subsection \<open>Enumeration\<close>

text \<open>
  What \<^verbatim>\<open>list_available_devices\<close> finds on the machine: whether \<^verbatim>\<open>winreg\<close> can be
  imported, whether \<^verbatim>\<open>OpenKey\<close> succeeds, and the subkeys of the printers key:
  \<^verbatim>\<open>EnumKey(key, i)\<close> returns the \<open>i\<close>-th of them and raises \<^verbatim>\<open>WindowsError\<close> past
  the last.
\<close>

record registry =
  winreg_importable :: bool
  OpenKey_ok :: bool
  subkeys :: "pystr list"

record device =
  identifier_of :: pystr
  instance_of :: "pyobj option"

definition windows_device :: "pystr \<Rightarrow> device" where
  "windows_device name = \<lparr>identifier_of = lit ''windows://'' @ name, instance_of = None\<rparr>"

text \<open>The \<^verbatim>\<open>while True\<close> loop over the index \<open>i\<close>, left when \<^verbatim>\<open>EnumKey\<close> raises.\<close>

function enum_loop :: "pystr list \<Rightarrow> nat \<Rightarrow> device list \<Rightarrow> device list" where
  "enum_loop keys i devices =
     (if i < length keys then
        (let printer_name = keys ! i in
         enum_loop keys (i + 1)
           (if contains (lit ''Brother'') printer_name \<or> contains (lit ''QL'') printer_name
            then devices @ [windows_device printer_name] else devices))
      else devices)"
  by pat_completeness auto
termination
  by (relation "measure (\<lambda>(keys, i, devices). length keys - i)") auto

definition common_names :: "pystr list" where
  "common_names =
     [lit ''Brother QL-500'', lit ''Brother QL-550'', lit ''Brother QL-600'',
      lit ''Brother QL-700'']"

text \<open>
  The function has no object; its outcome is the list returned or the exception raised,
  and the log records. \<open>discover\<close> is the body of the inner \<^verbatim>\<open>try\<close>:
  \<^verbatim>\<open>OpenKey\<close>, the loop and \<^verbatim>\<open>CloseKey\<close>. The inner handler logs at debug level
  and goes on with the devices found so far, which is none when \<^verbatim>\<open>OpenKey\<close> raised;
  the outer handler logs at error level and returns the empty list.
\<close>

definition discover :: "registry \<Rightarrow> (error + device list) \<times> (level \<times> log_msg) list" where
  "discover reg =
     (if OpenKey_ok reg then (Inr (enum_loop (subkeys reg) 0 []), [])
      else (Inl OSError_registry, []))"

definition list_available_devices ::
  "registry \<Rightarrow> (error + device list) \<times> (level \<times> log_msg) list" where
  "list_available_devices reg =
     (case
        (if \<not> winreg_importable reg then (Inl ImportError, [])
         else
           (let (devices, lg) =
                  (case discover reg of
                     (Inr ds, lg) \<Rightarrow> (ds, lg)
                   | (Inl e, lg) \<Rightarrow> ([], lg @ [(DEBUG, Could_not_enumerate e)]));
                devices' = (if devices = [] then map windows_device common_names else devices)
            in (Inr devices', lg)))
      of
        (Inr ds, lg) \<Rightarrow> (Inr ds, lg)
      | (Inl e, lg) \<Rightarrow> (Inr [], lg @ [(ERROR, Error_listing e)]))"

subsection \<open>Notions used in the proofs\<close>

text \<open>The object and the spooler calls after the \<^verbatim>\<open>_open_printer\<close> step.\<close>

definition after_open :: "os \<Rightarrow> session \<Rightarrow> session" where
  "after_open w s =
     (if hprinter s = None then s\<lparr>hprinter := Some (snd (OpenPrinterW_r w))\<rparr> else s)"

definition open_calls :: "session \<Rightarrow> os_call list" where
  "open_calls s = (if hprinter s = None then [OpenPrinterW (printer_name s)] else [])"

text \<open>
  The outcome of a \<^verbatim>\<open>_write\<close> that raises \<open>e\<close>: the handler logs the error after
  whatever was logged before, and raises it again.
\<close>

definition failed ::
  "error \<Rightarrow> session \<Rightarrow> os_call list \<Rightarrow> (level \<times> log_msg) list \<Rightarrow> unit outcome" where
  "failed e s c l =
     \<lparr>result = Inl e, self = s, calls = c, logs = l @ [(ERROR, Error_writing e)]\<rparr>"

definition endpage_logs :: "os \<Rightarrow> (level \<times> log_msg) list" where
  "endpage_logs w =
     (if EndPagePrinter_r w = 0 then [(WARNING, EndPagePrinter_failed_msg)] else [])"

definition enddoc_logs :: "os \<Rightarrow> (level \<times> log_msg) list" where
  "enddoc_logs w =
     (if EndDocPrinter_r w = 0 then [(WARNING, EndDocPrinter_failed_msg)] else [])"

text \<open>The test of the enumeration loop on a registry name.\<close>

definition brother_or_ql :: "pystr \<Rightarrow> bool" where
  "brother_or_ql n = (contains (lit ''Brother'') n \<or> contains (lit ''QL'') n)"

text \<open>
  Concrete inputs: a spooler that accepts every call and takes all three bytes, a session
  that holds no handle, and one that holds the handle 7.
\<close>

definition spooler_ok :: os where
  "spooler_ok =
     \<lparr>OpenPrinterW_r = (1, 7), StartDocPrinterW_r = 1, StartPagePrinter_r = 1,
      WritePrinter_r = (1, 3), EndPagePrinter_r = 1, EndDocPrinter_r = 1\<rparr>"

definition idle_session :: session where
  "idle_session = \<lparr>printer_name = Some (lit ''Brother QL-500''), hprinter = None\<rparr>"

definition held_session :: session where
  "held_session = \<lparr>printer_name = Some (lit ''Brother QL-500''), hprinter = Some 7\<rparr>"

text \<open>A registry in which the only printer is not of the family.\<close>

definition registry_hp :: registry where
  "registry_hp =
     \<lparr>winreg_importable = True, OpenKey_ok = True, subkeys = [lit ''HP LaserJet'']\<rparr>"

section \<open>Properties\<close>

subsection \<open>The outcome of each method, path by path\<close>

lemma open_printer_outcome:
  "open_printer w s =
    \<lparr>result = (if hprinter s = None \<and> fst (OpenPrinterW_r w) = 0
                then Inl (OSError_Failed_to_open_printer (printer_name s)) else Inr ()),
     self = after_open w s, calls = open_calls s, logs = []\<rparr>"
  by (simp add: open_printer_def return_def Let_def after_open_def open_calls_def)

lemma hprinter_after_open: "hprinter (after_open w s) \<noteq> None"
  by (simp add: after_open_def)

lemma printer_name_after_open: "printer_name (after_open w s) = printer_name s"
  by (simp add: after_open_def)

text \<open>The \<^verbatim>\<open>try ... finally\<close> block of \<^verbatim>\<open>_write\<close>, from any object.\<close>

lemma job_outcome:
  "try_finally
     (bind (winspool StartPagePrinter (StartPagePrinter_r w)) (\<lambda>started.
      if started = 0 then raise (IOError StartPagePrinter_failed)
      else
        bind (winspool (\<lambda>h. WritePrinter h data (length data)) (WritePrinter_r w))
          (\<lambda>(res, written).
             if res = 0 then raise (IOError (WritePrinter_failed written (length data)))
             else
               bind (logger DEBUG (Wrote_bytes written)) (\<lambda>_.
               bind (winspool EndPagePrinter (EndPagePrinter_r w)) (\<lambda>ended.
               if ended = 0 then logger WARNING EndPagePrinter_failed_msg
               else return ())))))
     (bind (winspool EndDocPrinter (EndDocPrinter_r w)) (\<lambda>ended.
      if ended = 0 then logger WARNING EndDocPrinter_failed_msg
      else return ())) s =
    \<lparr>result = (if StartPagePrinter_r w = 0 then Inl (IOError StartPagePrinter_failed)
                else if fst (WritePrinter_r w) = 0
                then Inl (IOError (WritePrinter_failed (snd (WritePrinter_r w)) (length data)))
                else Inr ()),
     self = s,
     calls = StartPagePrinter (hprinter s) #
             (if StartPagePrinter_r w = 0 then []
              else WritePrinter (hprinter s) data (length data) #
                   (if fst (WritePrinter_r w) = 0 then [] else [EndPagePrinter (hprinter s)]))
             @ [EndDocPrinter (hprinter s)],
     logs = (if StartPagePrinter_r w = 0 \<or> fst (WritePrinter_r w) = 0 then []
             else (DEBUG, Wrote_bytes (snd (WritePrinter_r w))) # endpage_logs w)
            @ enddoc_logs w\<rparr>"
  by (simp add: bind_def try_finally_def winspool_def logger_def return_def raise_def Let_def
      endpage_logs_def enddoc_logs_def split: prod.splits)

text \<open>All six ways through \<^verbatim>\<open>_write\<close>.\<close>

lemma write_data_flat:
  "write_data w p s =
    (let s' = after_open w s; h = hprinter s' in
     if hprinter s = None \<and> fst (OpenPrinterW_r w) = 0
     then failed (OSError_Failed_to_open_printer (printer_name s)) s' (open_calls s) []
     else
       case encode_payload p of
         Inl e \<Rightarrow> failed e s' (open_calls s) []
       | Inr data \<Rightarrow>
           if StartDocPrinterW_r w = 0
           then failed (IOError StartDocPrinter_failed) s'
                  (open_calls s @ [StartDocPrinterW h]) []
           else if StartPagePrinter_r w = 0
           then failed (IOError StartPagePrinter_failed) s'
                  (open_calls s @ [StartDocPrinterW h, StartPagePrinter h, EndDocPrinter h])
                  (enddoc_logs w)
           else if fst (WritePrinter_r w) = 0
           then failed (IOError (WritePrinter_failed (snd (WritePrinter_r w)) (length data))) s'
                  (open_calls s @ [StartDocPrinterW h, StartPagePrinter h,
                     WritePrinter h data (length data), EndDocPrinter h])
                  (enddoc_logs w)
           else \<lparr>result = Inr (), self = s',
                  calls = open_calls s @ [StartDocPrinterW h, StartPagePrinter h,
                     WritePrinter h data (length data), EndPagePrinter h, EndDocPrinter h],
                  logs = (DEBUG, Wrote_bytes (snd (WritePrinter_r w))) # endpage_logs w
                         @ enddoc_logs w\<rparr>)"
  unfolding write_data_def job_outcome
  by (simp add: open_printer_outcome bind_def try_except_def winspool_def logger_def
      raise_def lift_def Let_def failed_def split: sum.splits)

lemma open_calls_kinds:
  "filter is_EndPagePrinter (open_calls s) = []"
  "filter is_EndDocPrinter (open_calls s) = []"
  "filter is_ClosePrinter (open_calls s) = []"
  "filter is_StartPagePrinter (open_calls s) = []"
  "filter is_WritePrinter (open_calls s) = []"
  "WritePrinter h d n \<notin> set (open_calls s)"
  "StartDocPrinterW h \<notin> set (open_calls s)"
  by (simp_all add: open_calls_def)

lemma close_printer_outcome:
  "close_printer s =
     \<lparr>result = Inr (), self = s\<lparr>hprinter := None\<rparr>,
      calls = (if hprinter s = None then [] else [ClosePrinter (hprinter s)]), logs = []\<rparr>"
  by (simp add: close_printer_def return_def)

lemma dispose_outcome: "dispose s = close_printer s"
  by (simp add: dispose_def try_except_def close_printer_outcome)

text \<open>All three ways through \<^verbatim>\<open>__init__\<close> on a string.\<close>

lemma init_Str:
  "init w (Str d) =
    (let name = (if startswith d (lit ''windows://'') then drop 10 d else d);
         s1 = \<lparr>printer_name = Some name, hprinter = None\<rparr> in
     if name = []
     then \<lparr>result = Inl (ValueError Invalid_printer_name), self = s1, calls = [], logs = []\<rparr>
     else if fst (OpenPrinterW_r w) = 0
     then \<lparr>result = Inl (ValueError (Could_not_open_printer (Some name)
                           (OSError_Failed_to_open_printer (Some name)))),
           self = s1\<lparr>hprinter := Some (snd (OpenPrinterW_r w))\<rparr>,
           calls = [OpenPrinterW (Some name)],
           logs = [(INFO, Initializing (Some name))]\<rparr>
     else \<lparr>result = Inr (), self = s1,
           calls = [OpenPrinterW (Some name), ClosePrinter (Some (snd (OpenPrinterW_r w)))],
           logs = [(INFO, Initializing (Some name))]\<rparr>)"
  by (simp add: init_def open_printer_outcome close_printer_outcome bind_def try_except_def
      logger_def raise_def Let_def after_open_def open_calls_def)

lemma length_prefix: "length (lit ''windows://'') = 10"
  by (simp add: lit_def)

lemma startswith_append: "startswith (p @ n) p"
  by (simp add: startswith_def)

lemma startswith_split: "startswith d p \<Longrightarrow> p @ drop (length p) d = d"
  unfolding startswith_def by (metis append_take_drop_id)

text \<open>The enumeration loop is a filter over the subkeys.\<close>

lemma enum_loop_filter:
  "enum_loop keys i acc = acc @ map windows_device (filter brother_or_ql (drop i keys))"
proof (induction keys i acc rule: enum_loop.induct)
  case (1 keys i devices)
  show ?case
  proof (cases "i < length keys")
    case True
    let ?acc = "if brother_or_ql (keys ! i)
                then devices @ [windows_device (keys ! i)] else devices"
    have f: "filter brother_or_ql (drop i keys) =
        (if brother_or_ql (keys ! i) then [keys ! i] else [])
        @ filter brother_or_ql (drop (Suc i) keys)"
      by (subst Cons_nth_drop_Suc [OF True, symmetric]) (simp del: Cons_nth_drop_Suc)
    have "enum_loop keys i devices = enum_loop keys (i + 1) ?acc"
      by (subst enum_loop.simps) (simp add: True brother_or_ql_def Let_def del: enum_loop.simps)
    also have "\<dots> = ?acc @ map windows_device (filter brother_or_ql (drop (i + 1) keys))"
      by (rule "1.IH" [OF True refl, folded brother_or_ql_def])
    also have "\<dots> = devices @ map windows_device (filter brother_or_ql (drop i keys))"
      by (simp add: f)
    finally show ?thesis .
  next
    case False
    then show ?thesis
      by (subst enum_loop.simps) (simp del: enum_loop.simps)
  qed
qed

lemma fallback_devices:
  "map windows_device common_names =
     [\<lparr>identifier_of = lit ''windows://Brother QL-500'', instance_of = None\<rparr>,
      \<lparr>identifier_of = lit ''windows://Brother QL-550'', instance_of = None\<rparr>,
      \<lparr>identifier_of = lit ''windows://Brother QL-600'', instance_of = None\<rparr>,
      \<lparr>identifier_of = lit ''windows://Brother QL-700'', instance_of = None\<rparr>]"
  by (simp add: common_names_def windows_device_def lit_def)

text \<open>All four ways through \<^verbatim>\<open>list_available_devices\<close>.\<close>

lemma list_available_devices_flat:
  "list_available_devices reg =
     (if \<not> winreg_importable reg then (Inr [], [(ERROR, Error_listing ImportError)])
      else if \<not> OpenKey_ok reg
      then (Inr (map windows_device common_names),
            [(DEBUG, Could_not_enumerate OSError_registry)])
      else if filter brother_or_ql (subkeys reg) = []
      then (Inr (map windows_device common_names), [])
      else (Inr (map windows_device (filter brother_or_ql (subkeys reg))), []))"
  by (simp add: list_available_devices_def discover_def enum_loop_filter Let_def
      del: enum_loop.simps)

subsection \<open>The transfer step\<close>

text \<open>
  Claim C1, as amended. The claim reads: whenever the transfer step reports fewer bytes
  accepted than the payload has, the write call fails with \<^verbatim>\<open>WriteIncomplete\<close>
  carrying both counts, and end-page and end-document are each invoked exactly once.
  The code never compares the count with the length: it looks at the return value of
  \<^verbatim>\<open>WritePrinter\<close> only. What holds, for every write call that reaches the transfer
  step: the call passes the encoded payload and its length; if \<^verbatim>\<open>WritePrinter\<close>
  returns zero, the call fails with the \<^verbatim>\<open>WritePrinter failed\<close> error carrying the
  count accepted and the count requested, end-page is not invoked and end-document is
  invoked exactly once; if it returns non-zero, the call succeeds whatever count was
  accepted, and end-page and end-document are each invoked exactly once.
\<close>

theorem write_transfer_outcome:
  "WritePrinter h data n \<in> set (calls (write_data w p s)) \<Longrightarrow>
   encode_payload p = Inr data \<and> n = length data \<and>
   (fst (WritePrinter_r w) = 0 \<longrightarrow>
      result (write_data w p s)
        = Inl (IOError (WritePrinter_failed (snd (WritePrinter_r w)) (length data))) \<and>
      filter is_EndPagePrinter (calls (write_data w p s)) = [] \<and>
      length (filter is_EndDocPrinter (calls (write_data w p s))) = 1) \<and>
   (fst (WritePrinter_r w) \<noteq> 0 \<longrightarrow>
      result (write_data w p s) = Inr () \<and>
      length (filter is_EndPagePrinter (calls (write_data w p s))) = 1 \<and>
      length (filter is_EndDocPrinter (calls (write_data w p s))) = 1)"
  by (simp add: write_data_flat failed_def open_calls_kinds Let_def
      split: if_splits sum.splits)

text \<open>The theorem at a transfer that fails after two of three bytes, and at one that succeeds.\<close>

theorem write_transfer_outcome_witness:
  "result (write_data (spooler_ok\<lparr>WritePrinter_r := (0, 2)\<rparr>) (Raw [1, 2, 3]) idle_session)
     = Inl (IOError (WritePrinter_failed 2 3)) \<and>
   result (write_data spooler_ok (Raw [1, 2, 3]) idle_session) = Inr ()"
proof -
  have a: "WritePrinter (Some 7) [1, 2, 3] 3
      \<in> set (calls (write_data (spooler_ok\<lparr>WritePrinter_r := (0, 2)\<rparr>) (Raw [1, 2, 3])
                 idle_session))"
    by (simp add: write_data_flat failed_def open_calls_def after_open_def Let_def
        encode_payload_def spooler_ok_def idle_session_def)
  have b: "WritePrinter (Some 7) [1, 2, 3] 3
      \<in> set (calls (write_data spooler_ok (Raw [1, 2, 3]) idle_session))"
    by (simp add: write_data_flat failed_def open_calls_def after_open_def Let_def
        encode_payload_def spooler_ok_def idle_session_def)
  show ?thesis
    using write_transfer_outcome [OF a] write_transfer_outcome [OF b]
    by (simp add: spooler_ok_def)
qed

text \<open>
  Claim C1 as written fails: the spooler accepts two of three bytes and returns success,
  and the write call returns normally.
\<close>

theorem short_transfer_counterexample:
  "snd (WritePrinter_r (spooler_ok\<lparr>WritePrinter_r := (1, 2)\<rparr>)) < length [1, 2, 3 :: 8 word] \<and>
   WritePrinter (Some 7) [1, 2, 3] 3
     \<in> set (calls (write_data (spooler_ok\<lparr>WritePrinter_r := (1, 2)\<rparr>) (Raw [1, 2, 3])
                idle_session)) \<and>
   result (write_data (spooler_ok\<lparr>WritePrinter_r := (1, 2)\<rparr>) (Raw [1, 2, 3]) idle_session)
     = Inr ()"
  by (simp add: write_data_flat failed_def open_calls_def after_open_def Let_def
      encode_payload_def spooler_ok_def idle_session_def)

subsection \<open>The handle\<close>

text \<open>
  Claim C2, as amended. The claim reads: after every write call that completes or fails,
  the handle is released and the session is idle again; the handle is also released on
  disposal and on destruction. \<^verbatim>\<open>_write\<close> never calls \<^verbatim>\<open>_close_printer\<close>.
  What holds: after every write call, completed or failed, the handle attribute is still
  set and no \<^verbatim>\<open>ClosePrinter\<close> call was made; \<^verbatim>\<open>dispose\<close> raises nothing, clears the
  attribute and calls \<^verbatim>\<open>ClosePrinter\<close> once if a handle was held; \<^verbatim>\<open>__del__\<close> does
  what \<^verbatim>\<open>dispose\<close> does.
\<close>

theorem handle_release:
  "hprinter (self (write_data w p s)) \<noteq> None \<and>
   filter is_ClosePrinter (calls (write_data w p s)) = [] \<and>
   result (dispose s) = Inr () \<and> hprinter (self (dispose s)) = None \<and>
   calls (dispose s) = (if hprinter s = None then [] else [ClosePrinter (hprinter s)]) \<and>
   del s = dispose s"
  by (simp add: write_data_flat failed_def open_calls_kinds after_open_def Let_def
      dispose_outcome close_printer_outcome del_def split: sum.splits)

theorem handle_release_witness:
  "hprinter (self (write_data spooler_ok (Raw [1, 2, 3]) idle_session)) \<noteq> None \<and>
   calls (dispose held_session) = [ClosePrinter (Some 7)] \<and>
   hprinter (self (dispose held_session)) = None"
  using handle_release [of spooler_ok "Raw [1, 2, 3]" idle_session]
    handle_release [of spooler_ok "Raw [1, 2, 3]" held_session]
  by (simp add: held_session_def)

text \<open>
  Claim C2 as written fails: after a write that completes, and after one that fails at
  the begin-page step, the session still holds the handle 7.
\<close>

theorem write_keeps_handle_counterexample:
  "result (write_data spooler_ok (Raw [1, 2, 3]) idle_session) = Inr () \<and>
   hprinter (self (write_data spooler_ok (Raw [1, 2, 3]) idle_session)) = Some 7 \<and>
   result (write_data (spooler_ok\<lparr>StartPagePrinter_r := 0\<rparr>) (Raw [1, 2, 3]) idle_session)
     = Inl (IOError StartPagePrinter_failed) \<and>
   hprinter (self (write_data (spooler_ok\<lparr>StartPagePrinter_r := 0\<rparr>) (Raw [1, 2, 3])
      idle_session)) = Some 7"
  by (simp add: write_data_flat failed_def open_calls_def after_open_def Let_def
      encode_payload_def spooler_ok_def idle_session_def)

subsection \<open>The document\<close>

text \<open>
  Claim C3. In every write call whose begin-document step was made and succeeded,
  end-document is called exactly once and is the last spooler call of the write, also
  when begin-page or the transfer failed; if end-document fails, a warning is logged;
  and the result of the write does not depend on the answer \<open>r\<close> of end-document: it
  is the begin-page failure, the transfer failure, or success.
\<close>

theorem end_document_always_attempted:
  "StartDocPrinterW h \<in> set (calls (write_data w p s)) \<Longrightarrow> StartDocPrinterW_r w \<noteq> 0 \<Longrightarrow>
   length (filter is_EndDocPrinter (calls (write_data w p s))) = 1 \<and>
   last (calls (write_data w p s)) = EndDocPrinter h \<and>
   (EndDocPrinter_r w = 0 \<longrightarrow>
      (WARNING, EndDocPrinter_failed_msg) \<in> set (logs (write_data w p s))) \<and>
   result (write_data (w\<lparr>EndDocPrinter_r := r\<rparr>) p s) = result (write_data w p s) \<and>
   (StartPagePrinter_r w = 0 \<longrightarrow>
      result (write_data w p s) = Inl (IOError StartPagePrinter_failed)) \<and>
   (StartPagePrinter_r w \<noteq> 0 \<and> fst (WritePrinter_r w) = 0 \<longrightarrow>
      (\<exists>n. result (write_data w p s)
             = Inl (IOError (WritePrinter_failed (snd (WritePrinter_r w)) n)))) \<and>
   (StartPagePrinter_r w \<noteq> 0 \<and> fst (WritePrinter_r w) \<noteq> 0 \<longrightarrow>
      result (write_data w p s) = Inr ())"
  by (simp add: write_data_flat failed_def open_calls_kinds Let_def enddoc_logs_def
      after_open_def
      split: if_splits sum.splits)

text \<open>The theorem where begin-page and end-document both fail.\<close>

theorem end_document_always_attempted_witness:
  "calls (write_data (spooler_ok\<lparr>StartPagePrinter_r := 0, EndDocPrinter_r := 0\<rparr>)
      (Raw [1, 2, 3]) idle_session)
     = [OpenPrinterW (Some (lit ''Brother QL-500'')), StartDocPrinterW (Some 7),
        StartPagePrinter (Some 7), EndDocPrinter (Some 7)] \<and>
   (WARNING, EndDocPrinter_failed_msg)
     \<in> set (logs (write_data (spooler_ok\<lparr>StartPagePrinter_r := 0, EndDocPrinter_r := 0\<rparr>)
                (Raw [1, 2, 3]) idle_session)) \<and>
   result (write_data (spooler_ok\<lparr>StartPagePrinter_r := 0, EndDocPrinter_r := 0\<rparr>)
      (Raw [1, 2, 3]) idle_session) = Inl (IOError StartPagePrinter_failed)"
proof -
  have c: "calls (write_data (spooler_ok\<lparr>StartPagePrinter_r := 0, EndDocPrinter_r := 0\<rparr>)
      (Raw [1, 2, 3]) idle_session)
     = [OpenPrinterW (Some (lit ''Brother QL-500'')), StartDocPrinterW (Some 7),
        StartPagePrinter (Some 7), EndDocPrinter (Some 7)]"
    by (simp add: write_data_flat failed_def open_calls_def after_open_def Let_def
        encode_payload_def spooler_ok_def idle_session_def)
  have a: "StartDocPrinterW (Some 7)
      \<in> set (calls (write_data (spooler_ok\<lparr>StartPagePrinter_r := 0, EndDocPrinter_r := 0\<rparr>)
                 (Raw [1, 2, 3]) idle_session))"
    by (simp add: c)
  have b: "StartDocPrinterW_r (spooler_ok\<lparr>StartPagePrinter_r := 0, EndDocPrinter_r := 0\<rparr>)
      \<noteq> 0"
    by (simp add: spooler_ok_def)
  show ?thesis
    using end_document_always_attempted [OF a b] c by simp
qed

text \<open>
  Claim C4. In every write call whose begin-document step was made and failed, the call
  fails with the \<^verbatim>\<open>StartDocPrinter failed\<close> error, none of begin-page, transfer and
  end-page is called, \<^verbatim>\<open>ClosePrinter\<close> is not called, and the session keeps the handle
  it passed to begin-document: a later \<^verbatim>\<open>_open_printer\<close> finds it and does nothing.
\<close>

theorem begin_document_failure:
  "StartDocPrinterW h \<in> set (calls (write_data w p s)) \<Longrightarrow> StartDocPrinterW_r w = 0 \<Longrightarrow>
   result (write_data w p s) = Inl (IOError StartDocPrinter_failed) \<and>
   filter is_StartPagePrinter (calls (write_data w p s)) = [] \<and>
   filter is_WritePrinter (calls (write_data w p s)) = [] \<and>
   filter is_EndPagePrinter (calls (write_data w p s)) = [] \<and>
   filter is_ClosePrinter (calls (write_data w p s)) = [] \<and>
   hprinter (self (write_data w p s)) = h \<and> h \<noteq> None \<and>
   open_printer w' (self (write_data w p s)) = return () (self (write_data w p s))"
  by (simp add: write_data_flat failed_def open_calls_kinds Let_def after_open_def
      open_printer_def
      split: if_splits sum.splits)

theorem begin_document_failure_witness:
  "result (write_data (spooler_ok\<lparr>StartDocPrinterW_r := 0\<rparr>) (Raw [1, 2, 3]) idle_session)
     = Inl (IOError StartDocPrinter_failed) \<and>
   hprinter (self (write_data (spooler_ok\<lparr>StartDocPrinterW_r := 0\<rparr>) (Raw [1, 2, 3])
     idle_session)) = Some 7"
proof -
  have a: "StartDocPrinterW (Some 7)
      \<in> set (calls (write_data (spooler_ok\<lparr>StartDocPrinterW_r := 0\<rparr>) (Raw [1, 2, 3])
                 idle_session))"
    by (simp add: write_data_flat failed_def open_calls_def after_open_def Let_def
        encode_payload_def spooler_ok_def idle_session_def)
  have b: "StartDocPrinterW_r (spooler_ok\<lparr>StartDocPrinterW_r := 0\<rparr>) = 0"
    by simp
  show ?thesis
    using begin_document_failure [OF a b] by simp
qed

subsection \<open>Construction\<close>

text \<open>
  Claim C5. The scheme prefix of the code is \<^verbatim>\<open>windows://\<close>. For every string that
  is the prefix followed by \<open>name\<close>, the resolved name is \<open>name\<close>; put the other way,
  for every string \<open>d\<close> that starts with the prefix, the resolved name \<open>n\<close> is such that
  the prefix followed by \<open>n\<close> is \<open>d\<close>. For every string that does not start with the
  prefix, the resolved name is the string itself. And whenever the resolved name is
  empty, construction fails with \<^verbatim>\<open>ValueError('Invalid printer name')\<close>, before any
  spooler call.
\<close>

theorem resolver:
  "printer_name (self (init w (Str (lit ''windows://'' @ name)))) = Some name \<and>
   (startswith d (lit ''windows://'') \<longrightarrow>
      (\<exists>n. printer_name (self (init w (Str d))) = Some n \<and> lit ''windows://'' @ n = d)) \<and>
   (\<not> startswith d (lit ''windows://'') \<longrightarrow> printer_name (self (init w (Str d))) = Some d) \<and>
   (printer_name (self (init w (Str d))) = Some [] \<longrightarrow>
      result (init w (Str d)) = Inl (ValueError Invalid_printer_name) \<and>
      calls (init w (Str d)) = [])"
proof -
  have pn: "printer_name (self (init w (Str x)))
      = Some (if startswith x (lit ''windows://'') then drop 10 x else x)" for x
    by (simp add: init_Str Let_def)
  have 1: "printer_name (self (init w (Str (lit ''windows://'' @ name)))) = Some name"
    by (simp add: pn startswith_append length_prefix)
  have 2: "startswith d (lit ''windows://'') \<longrightarrow>
      (\<exists>n. printer_name (self (init w (Str d))) = Some n \<and> lit ''windows://'' @ n = d)"
    using startswith_split [of d "lit ''windows://''"] by (simp add: pn length_prefix)
  have 3: "\<not> startswith d (lit ''windows://'') \<longrightarrow>
      printer_name (self (init w (Str d))) = Some d"
    by (simp add: pn)
  have 4: "printer_name (self (init w (Str d))) = Some [] \<longrightarrow>
      result (init w (Str d)) = Inl (ValueError Invalid_printer_name) \<and>
      calls (init w (Str d)) = []"
    by (simp add: pn init_Str Let_def)
  from 1 2 3 4 show ?thesis by blast
qed

text \<open>The theorem at a prefixed name, at a bare name and at the prefix alone.\<close>

theorem resolver_witness:
  "printer_name (self (init spooler_ok (Str (lit ''windows://Brother QL-500''))))
     = Some (lit ''Brother QL-500'') \<and>
   printer_name (self (init spooler_ok (Str (lit ''Brother QL-500''))))
     = Some (lit ''Brother QL-500'') \<and>
   result (init spooler_ok (Str (lit ''windows://''))) = Inl (ValueError Invalid_printer_name)"
proof -
  have a: "lit ''windows://Brother QL-500'' = lit ''windows://'' @ lit ''Brother QL-500''"
    by (simp add: lit_def)
  have b: "\<not> startswith (lit ''Brother QL-500'') (lit ''windows://'')"
    by (simp add: startswith_def lit_def)
  have d: "printer_name (self (init spooler_ok (Str (lit ''windows://'')))) = Some []"
    using resolver [of spooler_ok "[]"] by simp
  show ?thesis
    using resolver [of spooler_ok "lit ''Brother QL-500''" "lit ''Brother QL-500''"]
      resolver [of spooler_ok "[]" "lit ''windows://''"] a b d
    by simp
qed

text \<open>
  Claim C8. For every identifier that is not a string, construction raises
  \<^verbatim>\<open>NotImplementedError\<close>; no spooler call is made and nothing is logged.
\<close>

theorem non_string_identifier:
  "\<not> is_Str x \<Longrightarrow>
   init w x = \<lparr>result = Inl NotImplementedError,
               self = \<lparr>printer_name = None, hprinter = None\<rparr>, calls = [], logs = []\<rparr>"
  by (cases x) (simp_all add: init_def raise_def)

theorem non_string_identifier_witness:
  "result (init spooler_ok (IntObj 3)) = Inl NotImplementedError \<and>
   calls (init spooler_ok (IntObj 3)) = [] \<and>
   calls (init spooler_ok NoneObj) = [] \<and>
   calls (init spooler_ok (BytesObj [1, 2])) = []"
  using non_string_identifier [of "IntObj 3" spooler_ok]
    non_string_identifier [of NoneObj spooler_ok]
    non_string_identifier [of "BytesObj [1, 2]" spooler_ok]
  by simp

subsection \<open>Enumeration\<close>

text \<open>
  Claim C6, as amended. The claim reads: if the primary registry discovery fails or its
  filtering yields no match, the function returns the four fallback names; and it never
  raises, any unexpected error giving the empty list. \<^verbatim>\<open>import winreg\<close> stands
  outside the inner handler, so where the registry facility itself is missing the
  function returns the empty list, not the fallback. What holds: if \<^verbatim>\<open>winreg\<close> can
  be imported and either the registry key cannot be opened or no subkey contains
  \<^verbatim>\<open>Brother\<close> or \<^verbatim>\<open>QL\<close>, the function returns the four fallback names, in their
  order, each behind the prefix \<^verbatim>\<open>windows://\<close>; if \<^verbatim>\<open>winreg\<close> cannot be imported,
  it returns the empty list and logs an error; and it never raises.
\<close>

theorem enumerator_fallback:
  "(winreg_importable reg \<and> (\<not> OpenKey_ok reg \<or> filter brother_or_ql (subkeys reg) = []) \<longrightarrow>
      fst (list_available_devices reg) =
        Inr [\<lparr>identifier_of = lit ''windows://Brother QL-500'', instance_of = None\<rparr>,
             \<lparr>identifier_of = lit ''windows://Brother QL-550'', instance_of = None\<rparr>,
             \<lparr>identifier_of = lit ''windows://Brother QL-600'', instance_of = None\<rparr>,
             \<lparr>identifier_of = lit ''windows://Brother QL-700'', instance_of = None\<rparr>]) \<and>
   fst (list_available_devices reg) \<noteq> Inl e \<and>
   (\<not> winreg_importable reg \<longrightarrow>
      list_available_devices reg = (Inr [], [(ERROR, Error_listing ImportError)]))"
  by (simp add: list_available_devices_flat fallback_devices)

text \<open>
  The theorem at a registry without a matching printer, at one whose key cannot be
  opened, and where \<^verbatim>\<open>winreg\<close> is missing.
\<close>

theorem enumerator_fallback_witness:
  "fst (list_available_devices registry_hp) =
        Inr [\<lparr>identifier_of = lit ''windows://Brother QL-500'', instance_of = None\<rparr>,
             \<lparr>identifier_of = lit ''windows://Brother QL-550'', instance_of = None\<rparr>,
             \<lparr>identifier_of = lit ''windows://Brother QL-600'', instance_of = None\<rparr>,
             \<lparr>identifier_of = lit ''windows://Brother QL-700'', instance_of = None\<rparr>] \<and>
   fst (list_available_devices (registry_hp\<lparr>OpenKey_ok := False\<rparr>)) =
        Inr [\<lparr>identifier_of = lit ''windows://Brother QL-500'', instance_of = None\<rparr>,
             \<lparr>identifier_of = lit ''windows://Brother QL-550'', instance_of = None\<rparr>,
             \<lparr>identifier_of = lit ''windows://Brother QL-600'', instance_of = None\<rparr>,
             \<lparr>identifier_of = lit ''windows://Brother QL-700'', instance_of = None\<rparr>] \<and>
   list_available_devices (registry_hp\<lparr>winreg_importable := False\<rparr>)
     = (Inr [], [(ERROR, Error_listing ImportError)])"
proof -
  have a: "winreg_importable registry_hp \<and> filter brother_or_ql (subkeys registry_hp) = []"
    by (simp add: registry_hp_def brother_or_ql_def lit_def startswith_def)
  have b: "winreg_importable (registry_hp\<lparr>OpenKey_ok := False\<rparr>) \<and>
           \<not> OpenKey_ok (registry_hp\<lparr>OpenKey_ok := False\<rparr>)"
    by (simp add: registry_hp_def)
  have c: "\<not> winreg_importable (registry_hp\<lparr>winreg_importable := False\<rparr>)"
    by simp
  show ?thesis
    using enumerator_fallback [of registry_hp]
      enumerator_fallback [of "registry_hp\<lparr>OpenKey_ok := False\<rparr>"]
      enumerator_fallback [of "registry_hp\<lparr>winreg_importable := False\<rparr>"] a b c
    by simp
qed

text \<open>
  Claim C6 as written fails: where \<^verbatim>\<open>winreg\<close> is missing, the discovery fails and no
  name matches, and the function returns the empty list instead of the fallback names.
\<close>

theorem missing_winreg_counterexample:
  "\<not> winreg_importable (registry_hp\<lparr>winreg_importable := False\<rparr>) \<and>
   filter brother_or_ql (subkeys (registry_hp\<lparr>winreg_importable := False\<rparr>)) = [] \<and>
   fst (list_available_devices (registry_hp\<lparr>winreg_importable := False\<rparr>)) = Inr []"
  by (simp add: list_available_devices_flat registry_hp_def brother_or_ql_def lit_def
      startswith_def)

subsection \<open>Opening and reading\<close>

text \<open>
  Claim C7, as amended. The claim reads: for every session, two calls of Open in a row
  make exactly one spooler open call, and the second leaves the session unchanged. A
  session that already holds a handle makes none. What holds: two calls in a row make
  exactly one \<^verbatim>\<open>OpenPrinterW\<close> call if the session held no handle before the first,
  and none if it held one; in both cases the second call returns normally, calls
  nothing, logs nothing and leaves the session as the first call left it.
\<close>

theorem open_idempotent:
  "length (filter is_OpenPrinterW
     (calls (open_printer w1 s) @ calls (open_printer w2 (self (open_printer w1 s)))))
     = (if hprinter s = None then 1 else 0) \<and>
   open_printer w2 (self (open_printer w1 s)) = return () (self (open_printer w1 s))"
  by (simp add: open_printer_def return_def Let_def)

theorem open_idempotent_witness:
  "length (filter is_OpenPrinterW
     (calls (open_printer spooler_ok idle_session)
      @ calls (open_printer spooler_ok (self (open_printer spooler_ok idle_session))))) = 1 \<and>
   length (filter is_OpenPrinterW
     (calls (open_printer spooler_ok held_session)
      @ calls (open_printer spooler_ok (self (open_printer spooler_ok held_session))))) = 0"
proof -
  have a: "hprinter idle_session = None"
    by (simp add: idle_session_def)
  have b: "hprinter held_session \<noteq> None"
    by (simp add: held_session_def)
  from a b show ?thesis
    using open_idempotent [of spooler_ok idle_session spooler_ok, THEN conjunct1]
      open_idempotent [of spooler_ok held_session spooler_ok, THEN conjunct1]
    by simp
qed

text \<open>
  Claim C7 as written fails: on a session that holds a handle, two calls of
  \<^verbatim>\<open>_open_printer\<close> make no spooler call at all.
\<close>

theorem open_twice_counterexample:
  "calls (open_printer spooler_ok held_session)
   @ calls (open_printer spooler_ok (self (open_printer spooler_ok held_session))) = []"
  by (simp add: open_printer_def return_def held_session_def)

text \<open>
  Claim C9. For every value of the length argument, \<^verbatim>\<open>_read\<close> returns the empty byte
  sequence; it raises nothing, calls nothing and leaves the session as it was.
\<close>

theorem read_returns_nothing:
  "read n s = \<lparr>result = Inr [], self = s, calls = [], logs = []\<rparr>"
  by (simp add: read_def return_def)

subsection \<open>Text that cannot be encoded\<close>

text \<open>
  Claim C10, as amended. The claim reads: for every text payload with a code point above
  255, the write call raises the encoding error before begin-document. The handle is
  opened before the payload is encoded, so a failing open comes first. What holds, for
  every such payload: if the session holds no handle and \<^verbatim>\<open>OpenPrinterW\<close> fails, the
  call raises that failure; otherwise it raises \<^verbatim>\<open>UnicodeEncodeError\<close>. In both cases
  the only spooler call is the \<^verbatim>\<open>OpenPrinterW\<close> of a session that held no handle, so
  no job is started and nothing is closed, and the handle attribute is set afterwards.
\<close>

theorem unencodable_text:
  "c \<in> set t \<Longrightarrow> 255 < c \<Longrightarrow>
   result (write_data w (Text t) s) =
     (if hprinter s = None \<and> fst (OpenPrinterW_r w) = 0
      then Inl (OSError_Failed_to_open_printer (printer_name s))
      else Inl UnicodeEncodeError) \<and>
   calls (write_data w (Text t) s) =
     (if hprinter s = None then [OpenPrinterW (printer_name s)] else []) \<and>
   hprinter (self (write_data w (Text t) s)) \<noteq> None"
proof -
  assume "c \<in> set t" "255 < c"
  then have "\<not> list_all (\<lambda>c. c \<le> 255) t"
    by (auto simp: list_all_iff intro!: bexI [of _ c])
  then have "encode_payload (Text t) = Inl UnicodeEncodeError"
    by (simp add: encode_payload_def encode_latin1_def)
  then show ?thesis
    by (simp add: write_data_flat failed_def open_calls_def after_open_def Let_def)
qed

theorem unencodable_text_witness:
  "result (write_data spooler_ok (Text [72, 256]) idle_session) = Inl UnicodeEncodeError \<and>
   calls (write_data spooler_ok (Text [72, 256]) idle_session)
     = [OpenPrinterW (Some (lit ''Brother QL-500''))] \<and>
   result (write_data spooler_ok (Text [72, 256]) held_session) = Inl UnicodeEncodeError \<and>
   calls (write_data spooler_ok (Text [72, 256]) held_session) = []"
proof -
  have a: "(256::nat) \<in> set [72, 256]" by simp
  have b: "(255::nat) < 256" by simp
  show ?thesis
    using unencodable_text [OF a b, of spooler_ok idle_session]
      unencodable_text [OF a b, of spooler_ok held_session]
    by (simp add: spooler_ok_def idle_session_def held_session_def)
qed

text \<open>
  Claim C10 as written fails: where the spooler refuses to open the printer, the write
  of such a text raises the open failure, not the encoding error.
\<close>

theorem open_failure_before_encoding_counterexample:
  "result (write_data (spooler_ok\<lparr>OpenPrinterW_r := (0, 0)\<rparr>) (Text [72, 256]) idle_session)
     = Inl (OSError_Failed_to_open_printer (Some (lit ''Brother QL-500'')))"
  by (simp add: write_data_flat failed_def open_calls_def after_open_def Let_def
      spooler_ok_def idle_session_def)

end
